theory Spec2Isabelle
  imports Complex_Main "HOL-Library.Multiset"
begin

section \<open>NSGA-II and R-NSGA-II survival and selection (hypernets/searchers/nsga_searcher.py)\<close>

subsection \<open>Errors and floating-point values\<close>

text \<open>
  The Python exceptions the modelled code can raise.
\<close>

datatype error = TypeError | ValueError | IndexError | RuntimeError

text \<open>
  The \<open>distance\<close> field holds a double. Its special values decide several branches of
  the code (\<open>float("inf")\<close> for boundary individuals, the quotient \<open>0 / 0\<close> of a
  zero-range objective), so they are part of the model: a float is a real number, an
  infinity or NaN. Finite arithmetic is exact (rounding and overflow are not modelled) and
  zero is unsigned: every divisor of the code is a difference \<open>max - min\<close>, which is never
  a negative zero. numpy does not raise on a zero divisor, it returns an infinity or NaN.
\<close>

datatype fl = Fin real | PInf | NInf | NaN

fun fneg :: "fl \<Rightarrow> fl" where
  "fneg (Fin x) = Fin (- x)"
| "fneg PInf = NInf"
| "fneg NInf = PInf"
| "fneg NaN = NaN"

fun fadd :: "fl \<Rightarrow> fl \<Rightarrow> fl" where
  "fadd (Fin x) (Fin y) = Fin (x + y)"
| "fadd NaN b = NaN"
| "fadd a NaN = NaN"
| "fadd PInf NInf = NaN"
| "fadd NInf PInf = NaN"
| "fadd PInf b = PInf"
| "fadd NInf b = NInf"
| "fadd a PInf = PInf"
| "fadd a NInf = NInf"

definition fsub :: "fl \<Rightarrow> fl \<Rightarrow> fl" where
  "fsub a b = fadd a (fneg b)"

fun fsign :: "fl \<Rightarrow> int" where
  "fsign (Fin x) = (if x < 0 then - 1 else if x = 0 then 0 else 1)"
| "fsign PInf = 1"
| "fsign NInf = - 1"
| "fsign NaN = 0"

definition signed_inf :: "int \<Rightarrow> fl" where
  "signed_inf s = (if s < 0 then NInf else if s = 0 then NaN else PInf)"

fun fmul :: "fl \<Rightarrow> fl \<Rightarrow> fl" where
  "fmul (Fin x) (Fin y) = Fin (x * y)"
| "fmul NaN b = NaN"
| "fmul a NaN = NaN"
| "fmul a b = signed_inf (fsign a * fsign b)"

fun fdiv :: "fl \<Rightarrow> fl \<Rightarrow> fl" where
  "fdiv (Fin x) (Fin y) = (if y = 0 then signed_inf (fsign (Fin x)) else Fin (x / y))"
| "fdiv NaN b = NaN"
| "fdiv a NaN = NaN"
| "fdiv (Fin x) b = Fin 0"
| "fdiv a (Fin y) = signed_inf (fsign a * (if y < 0 then - 1 else 1))"
| "fdiv a b = NaN"

fun fsqrt :: "fl \<Rightarrow> fl" where
  "fsqrt (Fin x) = (if x < 0 then NaN else Fin (sqrt x))"
| "fsqrt PInf = PInf"
| "fsqrt NInf = NaN"
| "fsqrt NaN = NaN"

fun flt :: "fl \<Rightarrow> fl \<Rightarrow> bool" where
  "flt (Fin x) (Fin y) = (x < y)"
| "flt NaN b = False"
| "flt a NaN = False"
| "flt a NInf = False"
| "flt PInf b = False"
| "flt a b = True"

definition fgt :: "fl \<Rightarrow> fl \<Rightarrow> bool" where
  "fgt a b = flt b a"

definition feq :: "fl \<Rightarrow> fl \<Rightarrow> bool" where
  "feq a b = (a \<noteq> NaN \<and> a = b)"

text \<open>\<open>np.max\<close> and \<open>np.min\<close> of two doubles: NaN wins.\<close>

definition fmax :: "fl \<Rightarrow> fl \<Rightarrow> fl" where
  "fmax a b = (if a = NaN \<or> b = NaN then NaN else if flt a b then b else a)"

definition fmin :: "fl \<Rightarrow> fl \<Rightarrow> fl" where
  "fmin a b = (if a = NaN \<or> b = NaN then NaN else if flt b a then b else a)"

subsection \<open>Objectives, individuals and the object store\<close>

text \<open>\<open>OptimizeDirection\<close>: \<open>'min'\<close> or \<open>'max'\<close> per objective.\<close>

datatype direction = Minimize | Maximize

text \<open>
  \<open>NSGAIndividual\<close>. A score is a number or \<open>None\<close> (an individual whose evaluation gave
  no value). \<open>ind_S\<close>, \<open>ind_n\<close> and \<open>ind_T\<close> are the Python fields \<open>S\<close>, \<open>n\<close> and \<open>T\<close>;
  the opaque \<open>dna\<close> plays no part in the modelled code. Individuals are Python
  objects compared by identity (\<open>p == q\<close> is not overridden), and the lists \<open>S\<close> and \<open>T\<close>
  hold references: an individual is a reference \<open>ref\<close> into a store of records.
\<close>

type_synonym ref = nat

record NSGAIndividual =
  scores :: "real option list"
  rank :: int
  ind_S :: "ref list"
  ind_n :: int
  ind_T :: "ref list"
  distance :: fl

type_synonym heap = "ref \<Rightarrow> NSGAIndividual"

text \<open>\<open>NSGAIndividual.reset\<close>.\<close>

definition reset :: "NSGAIndividual \<Rightarrow> NSGAIndividual" where
  "reset v = v\<lparr>rank := - 1, ind_S := [], ind_n := 0, ind_T := [], distance := Fin (- 1)\<rparr>"

subsection \<open>Pareto dominance\<close>

fun better :: "direction \<Rightarrow> real \<Rightarrow> real \<Rightarrow> bool" where
  "better Minimize a b = (a < b)"
| "better Maximize a b = (b < a)"

definition dominates :: "direction list \<Rightarrow> real list \<Rightarrow> real list \<Rightarrow> bool" where
  "dominates ds a b =
     (list_all (\<lambda>(d, x, y). \<not> better d y x) (zip ds (zip a b)) \<and>
      list_ex (\<lambda>(d, x, y). better d x y) (zip ds (zip a b)))"

text \<open>
  Modelled from the spec: \<open>pareto_dominate\<close> of \<open>hypernets/core/pareto.py\<close>, which is
  not among the sources. Section 4.1: \<open>a\<close> dominates \<open>b\<close> iff on every index \<open>a\<close> is at
  least as good as \<open>b\<close> under that index's direction and strictly better on at least
  one; smaller is better for minimize, larger for maximize. The behaviour on missing
  scores is undefined at that layer and mismatched vector lengths abort the operation
  (section 7): both are errors here. What the function does when the caller passes no
  directions (\<open>directions=None\<close>) is not described; the parameter \<open>dflt\<close> stands for
  it: every objective is then compared under \<open>dflt\<close>.
\<close>

definition pareto_dominate ::
  "direction \<Rightarrow> real option list \<Rightarrow> real option list \<Rightarrow> direction list option \<Rightarrow> error + bool" where
  "pareto_dominate dflt x1 x2 directions =
     (let ds = (case directions of None \<Rightarrow> replicate (length x1) dflt | Some ds \<Rightarrow> ds) in
      if length x1 \<noteq> length ds \<or> length x2 \<noteq> length ds then Inl ValueError
      else if None \<in> set x1 \<or> None \<in> set x2 then Inl TypeError
      else Inr (dominates ds (map the x1) (map the x2)))"

subsection \<open>The survival engines\<close>

text \<open>
  \<open>RankAndCrowdSortSurvival\<close> and its subclass \<open>RDominanceSurvival\<close>, which overrides
  \<open>dominate\<close>, \<open>sort_font\<close> and \<open>cmp_operator\<close>. The record holds the constructor's
  arguments; \<open>kind\<close> is the class of the object, on which the overridden methods
  dispatch. The base class leaves \<open>ref_point\<close>, \<open>weights\<close> and \<open>threshold\<close> unused.
\<close>

datatype survival_kind = RankAndCrowdSort | RDominance

record Survival =
  kind :: survival_kind
  directions :: "direction list"
  population_size :: nat
  ref_point :: "real list"
  weights :: "real list"
  threshold :: real

text \<open>\<open>RankAndCrowdSortSurvival.cmp_operator\<close>: the larger distance is the better one.\<close>

definition cmp_operator_crowd :: "NSGAIndividual \<Rightarrow> NSGAIndividual \<Rightarrow> int" where
  "cmp_operator_crowd s1 s2 =
     (if rank s1 < rank s2 then 1
      else if rank s1 = rank s2 then
        (if fgt (distance s1) (distance s2) then 1
         else if feq (distance s1) (distance s2) then 0
         else - 1)
      else - 1)"

text \<open>\<open>RDominanceSurvival.cmp_operator\<close>: the smaller distance is the better one.\<close>

definition cmp_operator_r :: "NSGAIndividual \<Rightarrow> NSGAIndividual \<Rightarrow> int" where
  "cmp_operator_r s1 s2 =
     (if rank s1 < rank s2 then 1
      else if rank s1 = rank s2 then
        (if flt (distance s1) (distance s2) then 1
         else if feq (distance s1) (distance s2) then 0
         else - 1)
      else - 1)"

definition cmp_operator :: "Survival \<Rightarrow> NSGAIndividual \<Rightarrow> NSGAIndividual \<Rightarrow> int" where
  "cmp_operator sv s1 s2 =
     (case kind sv of
        RankAndCrowdSort \<Rightarrow> cmp_operator_crowd s1 s2
      | RDominance \<Rightarrow> cmp_operator_r s1 s2)"

subsection \<open>Binary tournament selection\<close>

text \<open>
  The injected random source: an arbitrary infinite sequence of naturals and the position
  of the next one. \<open>randint(low, high, size=2)\<close> raises when \<open>low >= high\<close> and otherwise
  reduces the next two values into \<open>[low, high)\<close>, so every sequence of in-range draws is
  the output of some source.
\<close>

record random_state =
  draws :: "nat \<Rightarrow> nat"
  pos :: nat

definition randint :: "random_state \<Rightarrow> int \<Rightarrow> int \<Rightarrow> error + ((nat \<times> nat) \<times> random_state)" where
  "randint rs low high =
     (if low \<ge> high then Inl ValueError
      else let w = nat (high - low) in
        Inr ((nat (low + int (draws rs (pos rs) mod w)),
              nat (low + int (draws rs (pos rs + 1) mod w))),
             rs\<lparr>pos := pos rs + 2\<rparr>))"

text \<open>
  The loop \<open>while first_inx in indi_inx\<close> of \<open>binary_tournament_select\<close>: it redraws
  both indices and raises once \<open>try_times\<close> has passed 10000.
\<close>

function redraw ::
  "int \<Rightarrow> nat \<Rightarrow> nat \<Rightarrow> nat \<times> nat \<Rightarrow> random_state \<Rightarrow> error + ((nat \<times> nat) \<times> random_state)" where
  "redraw high first_inx try_times indi_inx rs =
     (if first_inx = fst indi_inx \<or> first_inx = snd indi_inx then
        (if try_times > 10000 then Inl RuntimeError
         else (case randint rs 0 high of
                 Inl e \<Rightarrow> Inl e
               | Inr (inx, rs') \<Rightarrow> redraw high first_inx (try_times + 1) inx rs'))
      else Inr (indi_inx, rs))"
  by pat_completeness auto
termination
  by (relation "measure (\<lambda>(high, first_inx, try_times, indi_inx, rs). 10001 - try_times)") auto

declare redraw.simps [simp del]

text \<open>
  \<open>NSGAIISearcher.binary_tournament_select\<close> up to its last line: the two chosen
  indices. The second choice tests \<open>cmp_operator(p1, p2)\<close> again, on the individuals of
  the first draw, as the source does.
\<close>

definition tournament_indices ::
  "Survival \<Rightarrow> heap \<Rightarrow> ref list \<Rightarrow> random_state \<Rightarrow> error + ((nat \<times> nat) \<times> random_state)" where
  "tournament_indices sv h population rs =
     (let high = int (length population) - 1 in
      (case randint rs 0 high of
         Inl e \<Rightarrow> Inl e
       | Inr (indi_inx, rs1) \<Rightarrow>
           (let p1 = population ! fst indi_inx;
                p2 = population ! snd indi_inx;
                first_inx = (if cmp_operator sv (h p1) (h p2) \<ge> 0
                             then fst indi_inx else snd indi_inx)
            in (case randint rs1 0 high of
                  Inl e \<Rightarrow> Inl e
                | Inr (indi_inx2, rs2) \<Rightarrow>
                    (case redraw high first_inx 0 indi_inx2 rs2 of
                       Inl e \<Rightarrow> Inl e
                     | Inr (indi_inx3, rs3) \<Rightarrow>
                         (let second_inx = (if cmp_operator sv (h p1) (h p2) \<ge> 0
                                            then fst indi_inx3 else snd indi_inx3)
                          in Inr ((first_inx, second_inx), rs3)))))))"

text \<open>The last line: \<open>return population[first_inx], population[second_inx]\<close>.\<close>

definition binary_tournament_select ::
  "Survival \<Rightarrow> heap \<Rightarrow> ref list \<Rightarrow> random_state \<Rightarrow> error + ((ref \<times> ref) \<times> random_state)" where
  "binary_tournament_select sv h population rs =
     (case tournament_indices sv h population rs of
        Inl e \<Rightarrow> Inl e
      | Inr ((first_inx, second_inx), rs') \<Rightarrow>
          Inr ((population ! first_inx, population ! second_inx), rs'))"

subsection \<open>Sorting\<close>

text \<open>
  Python's \<open>sorted\<close> is stable and compares with \<open><\<close> only. It is modelled by a
  stable insertion sort over a "less than" test; every stable sort returns the same
  list whenever the test is a strict weak order on the keys. \<open>reverse=True\<close> reverses
  the list, sorts it and reverses the result, which keeps equal keys in their
  original order.
\<close>

fun insort_lt :: "('a \<Rightarrow> 'a \<Rightarrow> bool) \<Rightarrow> 'a \<Rightarrow> 'a list \<Rightarrow> 'a list" where
  "insort_lt lt x [] = [x]"
| "insort_lt lt x (y # ys) = (if lt y x then y # insort_lt lt x ys else x # y # ys)"

definition py_sorted :: "('a \<Rightarrow> 'a \<Rightarrow> bool) \<Rightarrow> 'a list \<Rightarrow> 'a list" where
  "py_sorted lt xs = foldr (insort_lt lt) xs []"

definition py_sorted_reverse :: "('a \<Rightarrow> 'a \<Rightarrow> bool) \<Rightarrow> 'a list \<Rightarrow> 'a list" where
  "py_sorted_reverse lt xs = rev (py_sorted lt (rev xs))"

subsection \<open>Score arrays\<close>

text \<open>
  \<open>np.array([indi.scores for indi in I])\<close> with its column-wise \<open>np.max\<close> and
  \<open>np.min\<close>. numpy needs a non-empty rectangular array of numbers: an empty list
  has no maximum (ValueError), and rows with a missing score or of different lengths
  are rejected by \<open>scores_ok\<close> (TypeError).
\<close>

definition scores_ok :: "heap \<Rightarrow> ref list \<Rightarrow> bool" where
  "scores_ok h I =
     list_all (\<lambda>p. None \<notin> set (scores (h p)) \<and>
                    length (scores (h p)) = length (scores (h (hd I)))) I"

definition score :: "heap \<Rightarrow> nat \<Rightarrow> ref \<Rightarrow> real" where
  "score h m p = the (scores (h p) ! m)"

definition maximum :: "real list \<Rightarrow> real" where
  "maximum xs = fold max (tl xs) (hd xs)"

definition minimum :: "real list \<Rightarrow> real" where
  "minimum xs = fold min (tl xs) (hd xs)"

text \<open>\<open>maximum_array[m] - minimum_array[m]\<close>.\<close>

definition extent :: "heap \<Rightarrow> ref list \<Rightarrow> nat \<Rightarrow> real" where
  "extent h I m = maximum (map (score h m) I) - minimum (map (score h m) I)"

subsection \<open>Crowding distance\<close>

text \<open>
  The body of \<open>for i in range(1, len(I) - 1)\<close>: the distance of the \<open>i\<close>-th individual
  of the sorted front grows by the quotient of its neighbours' gap and the extent.
\<close>

definition crowd_step :: "nat \<Rightarrow> real \<Rightarrow> ref list \<Rightarrow> nat \<Rightarrow> heap \<Rightarrow> heap" where
  "crowd_step m ext sorted_I i h =
     h(sorted_I ! i := (h (sorted_I ! i))
        \<lparr>distance := fadd (distance (h (sorted_I ! i)))
           (fdiv (Fin (score h m (sorted_I ! (i + 1)) - score h m (sorted_I ! (i - 1)))) (Fin ext))\<rparr>)"

text \<open>The body of \<open>for m in range(len(I[0].scores))\<close>.\<close>

definition crowd_objective :: "ref list \<Rightarrow> nat \<Rightarrow> heap \<Rightarrow> heap" where
  "crowd_objective I m h =
     (let sorted_I = py_sorted (\<lambda>a b. score h m a < score h m b) I;
          h1 = h(sorted_I ! 0 := (h (sorted_I ! 0))\<lparr>distance := PInf\<rparr>);
          h2 = h1(sorted_I ! (length I - 1) := (h1 (sorted_I ! (length I - 1)))\<lparr>distance := PInf\<rparr>)
      in fold (crowd_step m (extent h I m) sorted_I) [1 ..< length I - 1] h2)"

text \<open>
  \<open>RankAndCrowdSortSurvival.crowding_distance_assignment\<close>. It returns its argument
  \<open>I\<close>; the model returns the store it leaves behind.
\<close>

definition crowding_distance_assignment :: "heap \<Rightarrow> ref list \<Rightarrow> error + heap" where
  "crowding_distance_assignment h I =
     (if I = [] then Inl ValueError
      else if \<not> scores_ok h I then Inl TypeError
      else Inr (fold (crowd_objective I) [0 ..< length (scores (h (hd I)))] h))"

subsection \<open>Dominance of the two engines\<close>

text \<open>\<open>RankAndCrowdSortSurvival.dominate\<close>: Pareto dominance under \<open>self.directions\<close>.\<close>

definition dominate_crowd ::
  "direction \<Rightarrow> Survival \<Rightarrow> heap \<Rightarrow> ref \<Rightarrow> ref \<Rightarrow> ref list \<Rightarrow> error + (bool \<times> heap)" where
  "dominate_crowd dflt sv h ind1 ind2 pop =
     (case pareto_dominate dflt (scores (h ind1)) (scores (h ind2)) (Some (directions sv)) of
        Inl e \<Rightarrow> Inl e
      | Inr b \<Rightarrow> Inr (b, h))"

definition fsum :: "fl list \<Rightarrow> fl" where
  "fsum xs = foldr fadd xs (Fin 0)"

definition fmaximum :: "fl list \<Rightarrow> fl" where
  "fmaximum xs = fold fmax (tl xs) (hd xs)"

definition fminimum :: "fl list \<Rightarrow> fl" where
  "fminimum xs = fold fmin (tl xs) (hd xs)"

text \<open>
  The weighted Euclidean distance of one score vector to the reference point,
  \<open>np.sqrt(np.sum(np.square((scores - ref_point) / scores_extend) * weights))\<close>;
  \<open>exts\<close> is \<open>scores_extend\<close>.
\<close>

definition weighted_distance :: "Survival \<Rightarrow> real list \<Rightarrow> real list \<Rightarrow> fl" where
  "weighted_distance sv exts xs =
     fsqrt (fsum (map (\<lambda>j. let q = fdiv (Fin (xs ! j - ref_point sv ! j)) (Fin (exts ! j))
                            in fmul (fmul q q) (Fin (weights sv ! j)))
                      [0 ..< length xs]))"

text \<open>
  The loop \<open>for indi in pop\<close> of \<open>RDominanceSurvival.dominate\<close>: it stores the distance
  in every individual of \<open>pop\<close> and collects the list \<open>distances\<close>.
\<close>

fun assign_distances :: "Survival \<Rightarrow> real list \<Rightarrow> ref list \<Rightarrow> heap \<Rightarrow> fl list \<times> heap" where
  "assign_distances sv exts [] h = ([], h)"
| "assign_distances sv exts (indi # rest) h =
     (let d = weighted_distance sv exts (map the (scores (h indi)));
          h1 = h(indi := (h indi)\<lparr>distance := d\<rparr>);
          (ds, h2) = assign_distances sv exts rest h1
      in (d # ds, h2))"

text \<open>
  \<open>RDominanceSurvival.dominate\<close>. Its two Pareto tests pass on the method's own
  \<open>directions\<close> argument, not \<open>self.directions\<close>. Vectors \<open>ref_point\<close> and \<open>weights\<close>
  of another length than the scores are rejected (numpy's broadcasting of a vector of
  length one is not modelled).
\<close>

definition dominate_r ::
  "direction \<Rightarrow> Survival \<Rightarrow> heap \<Rightarrow> ref \<Rightarrow> ref \<Rightarrow> ref list \<Rightarrow> direction list option
     \<Rightarrow> error + (bool \<times> heap)" where
  "dominate_r dflt sv h ind1 ind2 pop directions_arg =
     (case pareto_dominate dflt (scores (h ind1)) (scores (h ind2)) directions_arg of
        Inl e \<Rightarrow> Inl e
      | Inr b1 \<Rightarrow>
          if b1 then Inr (True, h)
          else (case pareto_dominate dflt (scores (h ind2)) (scores (h ind1)) directions_arg of
                  Inl e \<Rightarrow> Inl e
                | Inr b2 \<Rightarrow>
                    if b2 then Inr (False, h)
                    else if pop = [] then Inl ValueError
                    else if \<not> scores_ok h pop then Inl TypeError
                    else if length (ref_point sv) \<noteq> length (scores (h (hd pop)))
                          \<or> length (weights sv) \<noteq> length (scores (h (hd pop)))
                      then Inl ValueError
                    else
                      (let scores_extend = map (extent h pop) [0 ..< length (scores (h (hd pop)))];
                           (distances, h1) = assign_distances sv scores_extend pop h;
                           dist_extent = fsub (fmaximum distances) (fminimum distances)
                       in Inr (flt (fdiv (fsub (distance (h1 ind1)) (distance (h1 ind2))) dist_extent)
                                   (Fin (- threshold sv)), h1))))"

text \<open>
  The call \<open>self.dominate(ind1, ind2, pop=pop)\<close>, as \<open>fast_non_dominated_sort\<close> and
  \<open>calc_nondominated_set\<close> make it: no \<open>directions\<close> argument is given, so the
  subclass's method runs with \<open>directions=None\<close>.
\<close>

definition dominate ::
  "direction \<Rightarrow> Survival \<Rightarrow> heap \<Rightarrow> ref \<Rightarrow> ref \<Rightarrow> ref list \<Rightarrow> error + (bool \<times> heap)" where
  "dominate dflt sv h ind1 ind2 pop =
     (case kind sv of
        RankAndCrowdSort \<Rightarrow> dominate_crowd dflt sv h ind1 ind2 pop
      | RDominance \<Rightarrow> dominate_r dflt sv h ind1 ind2 pop None)"

subsection \<open>Fast non-dominated sort\<close>

text \<open>The first loop of \<open>fast_non_dominated_sort\<close>: \<open>for p in pop: p.reset()\<close>.\<close>

definition reset_all :: "ref list \<Rightarrow> heap \<Rightarrow> heap" where
  "reset_all pop h = fold (\<lambda>p h'. h'(p := reset (h' p))) pop h"

text \<open>
  The inner loop \<open>for q in pop\<close> of the pairwise comparison, for a fixed \<open>p\<close>: \<open>q\<close> is
  appended to \<open>p.S\<close> when \<open>p\<close> dominates it, and to \<open>p.T\<close>, with \<open>p.n\<close> counted up, when it
  dominates \<open>p\<close>.
\<close>

fun compare_loop ::
  "direction \<Rightarrow> Survival \<Rightarrow> ref list \<Rightarrow> ref \<Rightarrow> ref list \<Rightarrow> heap \<Rightarrow> error + heap" where
  "compare_loop dflt sv pop p [] h = Inr h"
| "compare_loop dflt sv pop p (q # qs) h =
     (if p = q then compare_loop dflt sv pop p qs h
      else (case dominate dflt sv h p q pop of
              Inl e \<Rightarrow> Inl e
            | Inr (b1, h1) \<Rightarrow>
                (let h2 = (if b1 then h1(p := (h1 p)\<lparr>ind_S := ind_S (h1 p) @ [q]\<rparr>) else h1)
                 in (case dominate dflt sv h2 q p pop of
                       Inl e \<Rightarrow> Inl e
                     | Inr (b2, h3) \<Rightarrow>
                         (let h4 = (if b2
                                    then h3(p := (h3 p)\<lparr>ind_T := ind_T (h3 p) @ [q],
                                                         ind_n := ind_n (h3 p) + 1\<rparr>)
                                    else h3)
                          in compare_loop dflt sv pop p qs h4)))))"

text \<open>
  The outer loop \<open>for p in pop\<close>: an individual that nobody dominates gets rank 0 and joins
  the first front \<open>F_1\<close>.
\<close>

fun count_loop ::
  "direction \<Rightarrow> Survival \<Rightarrow> ref list \<Rightarrow> ref list \<Rightarrow> ref list \<Rightarrow> heap
     \<Rightarrow> error + (ref list \<times> heap)" where
  "count_loop dflt sv pop [] F_1 h = Inr (F_1, h)"
| "count_loop dflt sv pop (p # ps) F_1 h =
     (case compare_loop dflt sv pop p pop (h(p := (h p)\<lparr>ind_n := 0\<rparr>)) of
        Inl e \<Rightarrow> Inl e
      | Inr h1 \<Rightarrow>
          if ind_n (h1 p) = 0
          then count_loop dflt sv pop ps (F_1 @ [p]) (h1(p := (h1 p)\<lparr>rank := 0\<rparr>))
          else count_loop dflt sv pop ps F_1 h1)"

text \<open>
  The loop \<open>for q in p.S\<close> inside the \<open>while\<close>: the count of \<open>q\<close> goes down by one, and
  an individual whose count reaches zero gets rank \<open>i + 1\<close> and joins \<open>Q\<close>.
\<close>

fun dec_loop :: "nat \<Rightarrow> ref list \<Rightarrow> ref list \<Rightarrow> heap \<Rightarrow> ref list \<times> heap" where
  "dec_loop i [] Q h = (Q, h)"
| "dec_loop i (q # qs) Q h =
     (let h1 = h(q := (h q)\<lparr>ind_n := ind_n (h q) - 1\<rparr>)
      in if ind_n (h1 q) = 0
         then dec_loop i qs (Q @ [q]) (h1(q := (h1 q)\<lparr>rank := int i + 1\<rparr>))
         else dec_loop i qs Q h1)"

text \<open>The loop \<open>for p in F[i]\<close> inside the \<open>while\<close>.\<close>

fun front_loop :: "nat \<Rightarrow> ref list \<Rightarrow> ref list \<Rightarrow> heap \<Rightarrow> ref list \<times> heap" where
  "front_loop i [] Q h = (Q, h)"
| "front_loop i (p # ps) Q h =
     (case dec_loop i (ind_S (h p)) Q h of (Q', h') \<Rightarrow> front_loop i ps Q' h')"

text \<open>
  The loop \<open>while True\<close>: it ends when a pass finds no new front. Nothing in the source
  bounds the number of passes, so the model says \<open>None\<close> for a run that never ends.
\<close>

partial_function (option) front_while ::
  "nat \<Rightarrow> ref list list \<Rightarrow> heap \<Rightarrow> (ref list list \<times> heap) option" where
  "front_while i F h =
     (case front_loop i (F ! i) [] h of
        (Q, h') \<Rightarrow> if length Q = 0 then Some (F, h') else front_while (i + 1) (F @ [Q]) h')"

declare front_while.simps [code]

text \<open>\<open>RankAndCrowdSortSurvival.fast_non_dominated_sort\<close>, inherited by the subclass.\<close>

definition fast_non_dominated_sort ::
  "direction \<Rightarrow> Survival \<Rightarrow> ref list \<Rightarrow> heap \<Rightarrow> (error + (ref list list \<times> heap)) option" where
  "fast_non_dominated_sort dflt sv pop h =
     (case count_loop dflt sv pop pop [] (reset_all pop h) of
        Inl e \<Rightarrow> Some (Inl e)
      | Inr (F_1, h1) \<Rightarrow> map_option Inr (front_while 0 [F_1] h1))"

subsection \<open>Survival update\<close>

text \<open>
  \<open>sort_font\<close>: the base class assigns crowding distances and returns the front as it
  is; the subclass returns the front sorted by \<open>distance\<close>, ascending.
\<close>

definition sort_font :: "Survival \<Rightarrow> heap \<Rightarrow> ref list \<Rightarrow> error + (ref list \<times> heap)" where
  "sort_font sv h front =
     (case kind sv of
        RankAndCrowdSort \<Rightarrow>
          (case crowding_distance_assignment h front of
             Inl e \<Rightarrow> Inl e
           | Inr h' \<Rightarrow> Inr (front, h'))
      | RDominance \<Rightarrow>
          Inr (py_sorted (\<lambda>a b. flt (distance (h a)) (distance (h b))) front, h))"

text \<open>
  The loop \<open>for rank, P_front in enumerate(p_sorted)\<close> of \<open>update\<close>: fronts are added to
  \<open>p_selected\<close> until it holds \<open>population_size\<close> individuals or an empty front is met.
\<close>

fun select_fronts ::
  "Survival \<Rightarrow> ref list list \<Rightarrow> ref list \<Rightarrow> heap \<Rightarrow> error + (ref list \<times> heap)" where
  "select_fronts sv [] p_selected h = Inr (p_selected, h)"
| "select_fronts sv (P_front # rest) p_selected h =
     (if length P_front = 0 then Inr (p_selected, h)
      else (case sort_font sv h P_front of
              Inl e \<Rightarrow> Inl e
            | Inr (individuals, h1) \<Rightarrow>
                if length (p_selected @ individuals) \<ge> population_size sv
                then Inr (p_selected @ individuals, h1)
                else select_fronts sv rest (p_selected @ individuals) h1))"

text \<open>
  \<open>RankAndCrowdSortSurvival.update\<close>. \<open>cmp_to_key\<close> makes \<open>a < b\<close> of
  \<open>cmp_operator(a, b) < 0\<close>; the logging has no effect on the result.
\<close>

definition update ::
  "direction \<Rightarrow> Survival \<Rightarrow> ref list \<Rightarrow> ref list \<Rightarrow> heap \<Rightarrow> (error + (ref list \<times> heap)) option" where
  "update dflt sv pop challengers h =
     (let temp_pop = pop @ challengers in
      if length pop < population_size sv then Some (Inr (temp_pop, h))
      else (case fast_non_dominated_sort dflt sv temp_pop h of
              None \<Rightarrow> None
            | Some (Inl e) \<Rightarrow> Some (Inl e)
            | Some (Inr (p_sorted, h1)) \<Rightarrow>
                (case select_fronts sv p_sorted [] h1 of
                   Inl e \<Rightarrow> Some (Inl e)
                 | Inr (p_selected, h2) \<Rightarrow>
                     (let p_cmp_sorted =
                            py_sorted_reverse (\<lambda>a b. cmp_operator sv (h2 a) (h2 b) < 0) p_selected
                      in Some (Inr (take (population_size sv) p_cmp_sorted, h2))))))"

subsection \<open>The non-dominated set\<close>

text \<open>
  The loop \<open>for indi_ in population\<close> of \<open>find_non_dominated_solu\<close>: \<open>False\<close> as soon as
  another individual dominates \<open>indi\<close>.
\<close>

fun dominated_scan ::
  "direction \<Rightarrow> Survival \<Rightarrow> ref list \<Rightarrow> ref \<Rightarrow> ref list \<Rightarrow> heap \<Rightarrow> error + (bool \<times> heap)" where
  "dominated_scan dflt sv population indi [] h = Inr (True, h)"
| "dominated_scan dflt sv population indi (indi' # rest) h =
     (if indi' = indi then dominated_scan dflt sv population indi rest h
      else (case dominate dflt sv h indi' indi population of
              Inl e \<Rightarrow> Inl e
            | Inr (b, h1) \<Rightarrow>
                if b then Inr (False, h1)
                else dominated_scan dflt sv population indi rest h1))"

text \<open>\<open>find_non_dominated_solu\<close>: an individual with a \<open>None\<close> score is never optimal.\<close>

definition find_non_dominated_solu ::
  "direction \<Rightarrow> Survival \<Rightarrow> ref list \<Rightarrow> heap \<Rightarrow> ref \<Rightarrow> error + (bool \<times> heap)" where
  "find_non_dominated_solu dflt sv population h indi =
     (if None \<in> set (scores (h indi)) then Inr (False, h)
      else dominated_scan dflt sv population indi population h)"

text \<open>The \<open>filter\<close> of \<open>calc_nondominated_set\<close>, with the store threaded through.\<close>

fun filter_solu ::
  "direction \<Rightarrow> Survival \<Rightarrow> ref list \<Rightarrow> ref list \<Rightarrow> heap \<Rightarrow> error + (ref list \<times> heap)" where
  "filter_solu dflt sv population [] h = Inr ([], h)"
| "filter_solu dflt sv population (s # rest) h =
     (case find_non_dominated_solu dflt sv population h s of
        Inl e \<Rightarrow> Inl e
      | Inr (b, h1) \<Rightarrow>
          (case filter_solu dflt sv population rest h1 of
             Inl e \<Rightarrow> Inl e
           | Inr (ns, h2) \<Rightarrow> Inr (if b then s # ns else ns, h2)))"

text \<open>
  \<open>RankAndCrowdSortSurvival.calc_nondominated_set\<close>; \<open>get_nondominated_set\<close> of the
  searcher calls it on the whole history.
\<close>

definition calc_nondominated_set ::
  "direction \<Rightarrow> Survival \<Rightarrow> ref list \<Rightarrow> heap \<Rightarrow> error + (ref list \<times> heap)" where
  "calc_nondominated_set dflt sv population h = filter_solu dflt sv population population h"

section \<open>Example populations\<close>

text \<open>An individual as its constructor leaves it, and a store holding a list of them.\<close>

definition new_individual :: "real option list \<Rightarrow> NSGAIndividual" where
  "new_individual xs =
     \<lparr>scores = xs, rank = - 1, ind_S = [], ind_n = - 1, ind_T = [], distance = Fin (- 1)\<rparr>"

definition store_of :: "real option list list \<Rightarrow> heap" where
  "store_of xss = (\<lambda>r. if r < length xss then new_individual (xss ! r) else new_individual [])"

definition crowd_survival :: "direction list \<Rightarrow> nat \<Rightarrow> Survival" where
  "crowd_survival ds k =
     \<lparr>kind = RankAndCrowdSort, directions = ds, population_size = k,
      ref_point = [], weights = [], threshold = 0\<rparr>"

text \<open>
  Five sorted individuals for the tournament: those at indices 1 and 2 have rank 1, the
  others rank 0, all with the same distance.
\<close>

definition ranked_store :: heap where
  "ranked_store =
     (\<lambda>r. \<lparr>scores = [], rank = (if r = 1 \<or> r = 2 then 1 else 0), ind_S = [], ind_n = 0,
            ind_T = [], distance = Fin 0\<rparr>)"

text \<open>A random source that yields 0, 1, 2, 3, ... and one that yields 0, 0, 1, 1, 1, ...\<close>

definition counting_source :: random_state where
  "counting_source = \<lparr>draws = (\<lambda>k. k), pos = 0\<rparr>"

definition step_source :: random_state where
  "step_source = \<lparr>draws = (\<lambda>k. if k < 2 then 0 else 1), pos = 0\<rparr>"

section \<open>Properties\<close>

subsection \<open>Binary tournament selection\<close>

lemma randint_range:
  "randint rs 0 high = Inr ((a, b), rs') \<Longrightarrow> 0 < high \<and> a < nat high \<and> b < nat high"
  by (auto simp: randint_def Let_def split: if_splits)

lemma redraw_range:
  "redraw high f t inx rs = Inr (inx', rs') \<Longrightarrow> fst inx < nat high \<Longrightarrow> snd inx < nat high
   \<Longrightarrow> fst inx' < nat high \<and> snd inx' < nat high \<and> f \<noteq> fst inx' \<and> f \<noteq> snd inx'"
proof (induction high f t inx rs rule: redraw.induct)
  case (1 high first_inx try_times indi_inx rs)
  show ?case
  proof (cases "first_inx = fst indi_inx \<or> first_inx = snd indi_inx")
    case False
    with "1.prems" show ?thesis
      by (simp add: redraw.simps [of high first_inx try_times indi_inx rs])
  next
    case True
    with "1.prems"(1) have nt: "\<not> try_times > 10000"
      by (simp add: redraw.simps [of high first_inx try_times indi_inx rs] split: if_splits)
    with True "1.prems"(1) obtain inx rs1 where
      r: "randint rs 0 high = Inr (inx, rs1)" and
      rec: "redraw high first_inx (try_times + 1) inx rs1 = Inr (inx', rs')"
      by (auto simp: redraw.simps [of high first_inx try_times indi_inx rs] split: sum.splits)
    from r have "fst inx < nat high \<and> snd inx < nat high"
      using randint_range [of rs high "fst inx" "snd inx" rs1] by simp
    with "1.IH" [OF True nt r refl rec] show ?thesis by simp
  qed
qed

lemma redraw_error:
  "redraw high f t inx rs = Inl e \<Longrightarrow> 0 < high \<Longrightarrow> e = RuntimeError"
proof (induction high f t inx rs rule: redraw.induct)
  case (1 high first_inx try_times indi_inx rs)
  show ?case
  proof (cases "first_inx = fst indi_inx \<or> first_inx = snd indi_inx")
    case False
    with "1.prems" show ?thesis
      by (simp add: redraw.simps [of high first_inx try_times indi_inx rs])
  next
    case True
    show ?thesis
    proof (cases "try_times > 10000")
      case True
      with \<open>first_inx = fst indi_inx \<or> first_inx = snd indi_inx\<close> "1.prems" show ?thesis
        by (simp add: redraw.simps [of high first_inx try_times indi_inx rs])
    next
      case False
      from "1.prems"(2) obtain inx rs1 where r: "randint rs 0 high = Inr (inx, rs1)"
        by (auto simp: randint_def Let_def)
      with True False "1.prems"(1) have "redraw high first_inx (try_times + 1) inx rs1 = Inl e"
        by (simp add: redraw.simps [of high first_inx try_times indi_inx rs])
      from "1.IH" [OF True False r refl this "1.prems"(2)] show ?thesis .
    qed
  qed
qed

text \<open>
  Claim C9. For a population of \<open>n \<ge> 2\<close> individuals and any random source,
  \<open>binary_tournament_select\<close> either raises the retry-cap error or returns the
  individuals at two different indices, both below \<open>n - 1\<close>: the draws have the exclusive
  upper bound \<open>n - 1\<close>, so the individual at the last index is never chosen.
\<close>

theorem tournament_never_last_index:
  assumes "2 \<le> length population"
  shows "case binary_tournament_select sv h population rs of
           Inl e \<Rightarrow> e = RuntimeError
         | Inr ((a, b), rs') \<Rightarrow>
             \<exists>i j. i < length population - 1 \<and> j < length population - 1 \<and> i \<noteq> j \<and>
                   a = population ! i \<and> b = population ! j"
proof -
  define high where "high = int (length population) - 1"
  from assms have hp: "0 < high" and nh: "nat high = length population - 1"
    by (simp_all add: high_def)
  from hp obtain i1 rs1 where r1: "randint rs 0 high = Inr (i1, rs1)"
    by (auto simp: randint_def Let_def)
  from hp obtain i2 rs2 where r2: "randint rs1 0 high = Inr (i2, rs2)"
    by (auto simp: randint_def Let_def)
  define f where "f = (if cmp_operator sv (h (population ! fst i1)) (h (population ! snd i1)) \<ge> 0
                        then fst i1 else snd i1)"
  from r1 have b1: "fst i1 < nat high \<and> snd i1 < nat high"
    using randint_range [of rs high "fst i1" "snd i1" rs1] by simp
  then have bf: "f < nat high" by (simp add: f_def)
  from r2 have b2: "fst i2 < nat high \<and> snd i2 < nat high"
    using randint_range [of rs1 high "fst i2" "snd i2" rs2] by simp
  show ?thesis
  proof (cases "redraw high f 0 i2 rs2")
    case (Inl e)
    with hp have "e = RuntimeError" by (auto dest: redraw_error)
    with Inl r1 r2 show ?thesis
      by (simp add: binary_tournament_select_def tournament_indices_def Let_def
          high_def [symmetric] f_def [symmetric])
  next
    case (Inr r)
    obtain i3 rs3 where r: "r = (i3, rs3)" by (cases r)
    from Inr r b2 have b3: "fst i3 < nat high \<and> snd i3 < nat high \<and> f \<noteq> fst i3 \<and> f \<noteq> snd i3"
      using redraw_range [of high f 0 i2 rs2 i3 rs3] by simp
    with Inr r r1 r2 bf nh show ?thesis
      by (auto simp: binary_tournament_select_def tournament_indices_def Let_def
          high_def [symmetric] f_def [symmetric])
  qed
qed

lemma tournament_step_source:
  "binary_tournament_select (crowd_survival [] 3) ranked_store [0, 1, 2] step_source
     = Inr ((0, 1), step_source\<lparr>pos := 4\<rparr>)"
  by (simp add: binary_tournament_select_def tournament_indices_def Let_def randint_def
      step_source_def crowd_survival_def ranked_store_def cmp_operator_def cmp_operator_crowd_def
      redraw.simps fgt_def feq_def)

theorem tournament_never_last_index_witness:
  "2 \<le> length [0 :: ref, 1, 2] \<and>
   binary_tournament_select (crowd_survival [] 3) ranked_store [0, 1, 2] step_source
     = Inr ((0, 1), step_source\<lparr>pos := 4\<rparr>) \<and>
   (\<exists>i j. i < length [0 :: ref, 1, 2] - 1 \<and> j < length [0 :: ref, 1, 2] - 1 \<and> i \<noteq> j \<and>
          (0 :: ref) = [0, 1, 2] ! i \<and> (1 :: ref) = [0, 1, 2] ! j)"
proof -
  have len: "2 \<le> length [0 :: ref, 1, 2]" by simp
  have "\<exists>i j. i < length [0 :: ref, 1, 2] - 1 \<and> j < length [0 :: ref, 1, 2] - 1 \<and> i \<noteq> j \<and>
          (0 :: ref) = [0, 1, 2] ! i \<and> (1 :: ref) = [0, 1, 2] ! j"
    using tournament_never_last_index [OF len, of "crowd_survival [] 3" ranked_store step_source]
    by (simp only: tournament_step_source sum.case prod.case)
  with len tournament_step_source show ?thesis by blast
qed

text \<open>
  Claim C6. The second slot is not filled by comparing the two individuals drawn for it:
  the code tests \<open>cmp_operator(p1, p2)\<close> on the individuals of the first draw again. With
  the draws \<open>(0, 1)\<close> and \<open>(2, 3)\<close> from five individuals, the first test keeps index 0 and
  the second slot takes index 2, although the individual at index 3 compares better than
  the one at index 2.
\<close>

theorem tournament_second_slot_stale_comparison:
  "binary_tournament_select (crowd_survival [] 5) ranked_store [0, 1, 2, 3, 4] counting_source
     = Inr ((0, 2), counting_source\<lparr>pos := 4\<rparr>) \<and>
   cmp_operator (crowd_survival [] 5) (ranked_store 2) (ranked_store 3) < 0"
  by (simp add: binary_tournament_select_def tournament_indices_def Let_def randint_def
      counting_source_def crowd_survival_def ranked_store_def cmp_operator_def
      cmp_operator_crowd_def redraw.simps fgt_def feq_def)

end
